theory Spec2Isabelle
  imports Complex_Main
begin

section \<open>The policy-gradient loss of \<^verbatim>\<open>rllib/agents/pg/pg_torch_policy.py\<close>\<close>

text \<open>
  The file holds two functions, \<^verbatim>\<open>pg_torch_loss\<close> and \<^verbatim>\<open>pg_loss_stats\<close>, and the
  registration call that hands them to the policy factory. Both functions are embedded
  below, statement by statement. The numerical backend (\<^verbatim>\<open>torch\<close>, a module-level
  name of the file, bound by \<^verbatim>\<open>try_import_torch()\<close>), the model, the action
  distribution and the batch are collaborators of the file: the three tensor operations
  the file calls (\<^verbatim>\<open>*\<close>, \<^verbatim>\<open>torch.mean\<close>, unary \<^verbatim>\<open>-\<close>) are modelled on
  one-dimensional tensors of floats, the model and the distribution are arguments.
\<close>

subsection \<open>Floats\<close>

text \<open>
  A tensor element is a float: a number, an infinity or NaN (there is one zero). The
  special values follow IEEE 754: NaN is absorbing, \<open>0 * inf\<close>, \<open>inf - inf\<close>,
  \<open>0 / 0\<close> and \<open>inf / inf\<close> are NaN.
\<close>

datatype tfloat = Fin real | PInf | NInf | NaN

fun fneg :: "tfloat \<Rightarrow> tfloat" where
  "fneg (Fin a) = Fin (- a)"
| "fneg PInf = NInf"
| "fneg NInf = PInf"
| "fneg NaN = NaN"

text \<open>An infinity of the sign of \<open>a\<close>, and NaN for \<open>a = 0\<close>: the product \<open>a * inf\<close>.\<close>

definition signed_inf :: "real \<Rightarrow> tfloat" where
  "signed_inf a = (if a = 0 then NaN else if 0 < a then PInf else NInf)"

text \<open>
  The result of an operation on two numbers is the exact result rounded into the float
  format of the tensors. Torch's default format is IEEE binary32: 24 significant bits,
  exponents from \<open>-126\<close> to \<open>127\<close>, subnormal numbers below \<open>2 powi - 126\<close>, rounding
  to the nearest float with ties to the even one, and overflow to an infinity from
  \<open>2 ^ 128 - 2 ^ 103\<close> on (half a unit above the largest float).

  \<open>rne\<close> rounds a real to the nearest integer, ties to even. \<open>ulp_exp a\<close> is the
  exponent of the spacing of the floats around \<open>a \<ge> 0\<close>: \<open>E - 23\<close> for
  \<open>2 powi E \<le> a < 2 powi (E + 1)\<close>, and \<open>-149\<close> for the subnormal numbers; it is
  found by searching the exponents downwards.
\<close>

definition rne :: "real \<Rightarrow> int" where
  "rne y = (let f = \<lfloor>y\<rfloor>; d = y - of_int f
            in if d < 1 / 2 then f else if 1 / 2 < d then f + 1
               else if even f then f else f + 1)"

fun ulp_exp_from :: "nat \<Rightarrow> real \<Rightarrow> int" where
  "ulp_exp_from 0 a = - 149"
| "ulp_exp_from (Suc k) a =
     (if 2 powi (int (Suc k) - 126) \<le> a then int (Suc k) - 149 else ulp_exp_from k a)"

definition ulp_exp :: "real \<Rightarrow> int" where
  "ulp_exp a = ulp_exp_from 253 a"

definition float32 :: "real \<Rightarrow> tfloat" where
  "float32 x =
     (if 2 ^ 128 - 2 ^ 103 \<le> \<bar>x\<bar> then signed_inf x
      else Fin (of_int (rne (x / 2 powi ulp_exp \<bar>x\<bar>)) * 2 powi ulp_exp \<bar>x\<bar>))"

text \<open>
  What the file needs of \<^verbatim>\<open>torch\<close> is its arithmetic, and that is fixed by the
  rounding of its float format. \<open>torch32\<close> is torch as the file gets it (binary32);
  \<open>torch_exact\<close> is arithmetic without rounding, the arithmetic of the spec's formulas.
  A tensor that a collaborator hands over may hold any number; every operation of the
  file rounds its result.
\<close>

record Torch =
  dtype :: "real \<Rightarrow> tfloat"

definition torch32 :: Torch where
  "torch32 = \<lparr>dtype = float32\<rparr>"

definition torch_exact :: Torch where
  "torch_exact = \<lparr>dtype = Fin\<rparr>"

fun fmul :: "(real \<Rightarrow> tfloat) \<Rightarrow> tfloat \<Rightarrow> tfloat \<Rightarrow> tfloat" where
  "fmul rnd NaN _ = NaN"
| "fmul rnd _ NaN = NaN"
| "fmul rnd (Fin a) (Fin b) = rnd (a * b)"
| "fmul rnd (Fin a) PInf = signed_inf a"
| "fmul rnd (Fin a) NInf = signed_inf (- a)"
| "fmul rnd PInf (Fin b) = signed_inf b"
| "fmul rnd NInf (Fin b) = signed_inf (- b)"
| "fmul rnd PInf PInf = PInf"
| "fmul rnd PInf NInf = NInf"
| "fmul rnd NInf PInf = NInf"
| "fmul rnd NInf NInf = PInf"

fun fadd :: "(real \<Rightarrow> tfloat) \<Rightarrow> tfloat \<Rightarrow> tfloat \<Rightarrow> tfloat" where
  "fadd rnd NaN _ = NaN"
| "fadd rnd _ NaN = NaN"
| "fadd rnd (Fin a) (Fin b) = rnd (a + b)"
| "fadd rnd PInf NInf = NaN"
| "fadd rnd NInf PInf = NaN"
| "fadd rnd PInf _ = PInf"
| "fadd rnd _ PInf = PInf"
| "fadd rnd NInf _ = NInf"
| "fadd rnd _ NInf = NInf"

fun fdiv :: "(real \<Rightarrow> tfloat) \<Rightarrow> tfloat \<Rightarrow> tfloat \<Rightarrow> tfloat" where
  "fdiv rnd NaN _ = NaN"
| "fdiv rnd _ NaN = NaN"
| "fdiv rnd (Fin a) (Fin b) = (if b = 0 then signed_inf a else rnd (a / b))"
| "fdiv rnd (Fin a) _ = Fin 0"
| "fdiv rnd PInf (Fin b) = (if 0 \<le> b then PInf else NInf)"
| "fdiv rnd NInf (Fin b) = (if 0 \<le> b then NInf else PInf)"
| "fdiv rnd _ _ = NaN"

subsection \<open>Tensors\<close>

text \<open>
  A tensor is the list of its elements: the batch columns and the log-probabilities are
  one-dimensional, aligned along the batch. A zero-dimensional tensor (what
  \<^verbatim>\<open>torch.mean\<close> returns) is a single \<open>tfloat\<close>.
\<close>

type_synonym tensor = "tfloat list"

datatype error = AttributeError | KeyError | RuntimeError | Raised string

text \<open>
  \<^verbatim>\<open>a * b\<close> on tensors: elementwise, a tensor of one element is broadcast along the
  other one, and any other pair of different sizes raises.
\<close>

definition tensor_mul :: "Torch \<Rightarrow> tensor \<Rightarrow> tensor \<Rightarrow> error + tensor" where
  "tensor_mul torch xs ys =
     (if length xs = length ys then Inr (map2 (fmul (dtype torch)) xs ys)
      else if length xs = 1 then Inr (map (fmul (dtype torch) (hd xs)) ys)
      else if length ys = 1 then Inr (map (\<lambda>x. fmul (dtype torch) x (hd ys)) xs)
      else Inl RuntimeError)"

text \<open>
  The sum of a tensor, accumulated in index order from 0; each addition rounds. What
  depends on the order of the additions says so (\<open>exact_sums\<close> below).
\<close>

definition tensor_sum :: "Torch \<Rightarrow> tensor \<Rightarrow> tfloat" where
  "tensor_sum torch xs = foldl (fadd (dtype torch)) (Fin 0) xs"

text \<open>
  \<^verbatim>\<open>torch.mean\<close>: the sum over the number of elements, the division rounded. The
  number of elements is taken as it is. On the empty tensor this is \<open>0 / 0\<close>, NaN.
\<close>

definition torch_mean :: "Torch \<Rightarrow> tensor \<Rightarrow> tfloat" where
  "torch_mean torch xs = fdiv (dtype torch) (tensor_sum torch xs) (Fin (real (length xs)))"

text \<open>\<^verbatim>\<open>.item()\<close>: the Python float of a zero-dimensional tensor, the same value.\<close>

definition item :: "tfloat \<Rightarrow> tfloat" where
  "item t = t"

subsection \<open>The collaborators\<close>

text \<open>
  The training batch maps column names to tensors; \<^verbatim>\<open>train_batch[k]\<close> raises
  \<^verbatim>\<open>KeyError\<close> on a missing column.
\<close>

type_synonym SampleBatch = "string \<rightharpoonup> tensor"

definition getitem :: "SampleBatch \<Rightarrow> string \<Rightarrow> error + tensor" where
  "getitem train_batch k = (case train_batch k of None \<Rightarrow> Inl KeyError | Some t \<Rightarrow> Inr t)"

text \<open>
  Modelled from the spec: the column names \<^verbatim>\<open>SampleBatch.ACTIONS\<close> and
  \<^verbatim>\<open>Postprocessing.ADVANTAGES\<close> are constants of other modules; the spec's scenario
  names the two columns \<open>actions\<close> and \<open>advantages\<close>.
\<close>

definition ACTIONS :: string where
  "ACTIONS = ''actions''"

definition ADVANTAGES :: string where
  "ADVANTAGES = ''advantages''"

text \<open>
  The policy object. The file reads and writes one attribute of it, \<^verbatim>\<open>pi_err\<close>;
  an attribute that was never assigned is \<open>None\<close>. Every other attribute of the policy
  is the extension part of the record.
\<close>

record Policy =
  pi_err :: "tfloat option"

text \<open>Reading \<^verbatim>\<open>policy.pi_err\<close>: a missing attribute raises.\<close>

definition getattr_pi_err :: "'p Policy_scheme \<Rightarrow> error + tfloat" where
  "getattr_pi_err policy = (case pi_err policy of None \<Rightarrow> Inl AttributeError | Some t \<Rightarrow> Inr t)"

text \<open>
  The model gives the distribution parameters for a batch (and a state, which the loss
  drops); the distribution class builds a distribution from them; the distribution gives
  the log-probabilities of a tensor of actions. Each may raise. They are called, never
  assigned to, and are taken as functions of their arguments.
\<close>

record ('i, 's) ModelV2 =
  from_batch :: "SampleBatch \<Rightarrow> error + ('i \<times> 's)"

record TorchDistributionWrapper =
  logp :: "tensor \<Rightarrow> error + tensor"

type_synonym ('i, 's) DistClass = "'i \<Rightarrow> ('i, 's) ModelV2 \<Rightarrow> error + TorchDistributionWrapper"

subsection \<open>The two functions\<close>

text \<open>
  Both functions return their result (or the error raised) together with the policy and
  the batch as they are when the call ends, so that what a call writes can be stated.
  \<^verbatim>\<open>pg_torch_loss\<close> takes the module-level \<^verbatim>\<open>torch\<close> as its first argument. The
  argument \<^verbatim>\<open>dist_class\<close> is written \<open>dist_cls\<close>: a name ending in \<open>_class\<close> is
  reserved syntax.
\<close>

definition pg_torch_loss ::
  "Torch \<Rightarrow> 'p Policy_scheme \<Rightarrow> ('i, 's) ModelV2 \<Rightarrow> ('i, 's) DistClass \<Rightarrow> SampleBatch
    \<Rightarrow> (error + tfloat) \<times> 'p Policy_scheme \<times> SampleBatch" where
  "pg_torch_loss torch policy model dist_cls train_batch =
     (case from_batch model train_batch of
        Inl e \<Rightarrow> (Inl e, policy, train_batch)
      | Inr (dist_inputs, _) \<Rightarrow>
     (case dist_cls dist_inputs model of
        Inl e \<Rightarrow> (Inl e, policy, train_batch)
      | Inr action_dist \<Rightarrow>
     (case getitem train_batch ACTIONS of
        Inl e \<Rightarrow> (Inl e, policy, train_batch)
      | Inr actions \<Rightarrow>
     (case logp action_dist actions of
        Inl e \<Rightarrow> (Inl e, policy, train_batch)
      | Inr log_probs \<Rightarrow>
     (case getitem train_batch ADVANTAGES of
        Inl e \<Rightarrow> (Inl e, policy, train_batch)
      | Inr advantages \<Rightarrow>
     (case tensor_mul torch log_probs advantages of
        Inl e \<Rightarrow> (Inl e, policy, train_batch)
      | Inr weighted \<Rightarrow>
          let policy' = policy\<lparr>pi_err := Some (fneg (torch_mean torch weighted))\<rparr>
          in (getattr_pi_err policy', policy', train_batch)))))))"

definition pg_loss_stats ::
  "'p Policy_scheme \<Rightarrow> SampleBatch
    \<Rightarrow> (error + (string \<rightharpoonup> tfloat)) \<times> 'p Policy_scheme \<times> SampleBatch" where
  "pg_loss_stats policy train_batch =
     (case getattr_pi_err policy of
        Inl e \<Rightarrow> (Inl e, policy, train_batch)
      | Inr t \<Rightarrow> (Inr [''policy_loss'' \<mapsto> item t], policy, train_batch))"

text \<open>The three parts of what a call leaves: what it returned, the policy, the batch.\<close>

definition returned :: "'r \<times> 'q \<times> SampleBatch \<Rightarrow> 'r" where
  "returned out = fst out"

definition policy_after :: "'r \<times> 'q \<times> SampleBatch \<Rightarrow> 'q" where
  "policy_after out = fst (snd out)"

definition batch_after :: "'r \<times> 'q \<times> SampleBatch \<Rightarrow> SampleBatch" where
  "batch_after out = snd (snd out)"

subsection \<open>Runs without rounding\<close>

text \<open>
  The loss of log-probabilities \<open>lp\<close> and advantages \<open>G\<close> is computed without
  rounding or overflow when the float format holds every intermediate result as it is:
  each product, each partial sum of the products (in index order, from 0) and the
  quotient of the sum by the number of samples.
\<close>

fun exact_products :: "(real \<Rightarrow> tfloat) \<Rightarrow> real list \<Rightarrow> real list \<Rightarrow> bool" where
  "exact_products rnd (a # as) (b # bs) =
     (rnd (a * b) = Fin (a * b) \<and> exact_products rnd as bs)"
| "exact_products rnd _ _ = True"

fun exact_sums :: "(real \<Rightarrow> tfloat) \<Rightarrow> real \<Rightarrow> real list \<Rightarrow> bool" where
  "exact_sums rnd acc [] = True"
| "exact_sums rnd acc (x # xs) =
     (rnd (acc + x) = Fin (acc + x) \<and> exact_sums rnd (acc + x) xs)"

definition no_rounding :: "Torch \<Rightarrow> real list \<Rightarrow> real list \<Rightarrow> bool" where
  "no_rounding torch lp G =
     (exact_products (dtype torch) lp G
      \<and> exact_sums (dtype torch) 0 (map2 (*) lp G)
      \<and> dtype torch (sum_list (map2 (*) lp G) / real (length G)) =
          Fin (sum_list (map2 (*) lp G) / real (length G)))"

subsection \<open>Concrete collaborators\<close>

text \<open>
  A model without parameters, and a distribution class whose distribution is the same
  for every row of the batch: \<open>f a\<close> is the log-probability of action \<open>a\<close>.
\<close>

definition const_model :: "(unit, unit) ModelV2" where
  "const_model = \<lparr>from_batch = (\<lambda>_. Inr ((), ()))\<rparr>"

definition table_dist :: "(tfloat \<Rightarrow> tfloat) \<Rightarrow> (unit, unit) DistClass" where
  "table_dist f = (\<lambda>_ _. Inr \<lparr>logp = (\<lambda>actions. Inr (map f actions))\<rparr>)"

definition batch_of :: "tensor \<Rightarrow> tensor \<Rightarrow> SampleBatch" where
  "batch_of actions advantages = [ACTIONS \<mapsto> actions, ADVANTAGES \<mapsto> advantages]"

text \<open>The scenario of the spec: action 0 has probability 1/2, any other action 1/4.\<close>

definition scenario_logp :: "tfloat \<Rightarrow> tfloat" where
  "scenario_logp a = (if a = Fin 0 then Fin (ln (1 / 2)) else Fin (ln (1 / 4)))"

text \<open>Log-probabilities \<open>-1\<close> for action 0 and \<open>-3\<close> for any other action.\<close>

definition simple_logp :: "tfloat \<Rightarrow> tfloat" where
  "simple_logp a = (if a = Fin 0 then Fin (- 1) else Fin (- 3))"

text \<open>
  A distribution that puts all its mass on action 0 (as a categorical distribution does
  when the logits of the other actions are \<open>-inf\<close>): probability 1 has log-probability
  0, probability 0 has log-probability \<open>-inf\<close>.
\<close>

definition masked_logp :: "tfloat \<Rightarrow> tfloat" where
  "masked_logp a = (if a = Fin 0 then Fin 0 else NInf)"




section \<open>Properties\<close>

subsection \<open>Rounding into binary32\<close>

lemma rne_of_int [simp]: "rne (of_int m) = m"
  by (simp add: rne_def)

lemma rne_error: "\<bar>of_int (rne y) - y\<bar> \<le> 1 / 2"
  unfolding rne_def Let_def by (auto simp: abs_if) linarith+

lemma pow2_less_D: "(2::real) powi m < 2 powi n \<Longrightarrow> m < n"
proof (rule ccontr)
  assume lt: "(2::real) powi m < 2 powi n" and "\<not> m < n"
  then have "n \<le> m" by simp
  then have "(2::real) powi n \<le> 2 powi m"
    by (rule power_int_increasing) simp
  with lt show False by simp
qed

lemma ulp_exp_from_ge: "- 149 \<le> ulp_exp_from k a"
  by (induction k) auto

lemma ulp_exp_from_le:
  assumes "a < 2 powi (e + 24)" and "- 149 \<le> e"
  shows "ulp_exp_from k a \<le> e"
proof (induction k)
  case 0
  show ?case using assms(2) by simp
next
  case (Suc k)
  show ?case
  proof (cases "2 powi (int (Suc k) - 126) \<le> a")
    case True
    then have "(2::real) powi (int (Suc k) - 126) < 2 powi (e + 24)"
      using assms(1) by linarith
    then have "int (Suc k) - 126 < e + 24"
      by (rule pow2_less_D)
    with True show ?thesis by simp
  next
    case False
    with Suc show ?thesis by simp
  qed
qed


lemma ulp_exp_ge: "- 149 \<le> ulp_exp a"
  by (simp add: ulp_exp_def ulp_exp_from_ge)

lemma ulp_exp_le: "a < 2 powi (e + 24) \<Longrightarrow> - 149 \<le> e \<Longrightarrow> ulp_exp a \<le> e"
  by (simp add: ulp_exp_def ulp_exp_from_le)


lemma float32_zero [simp]: "float32 0 = Fin 0"
  using rne_of_int [of 0] by (simp add: float32_def)

lemma float32_dyadic:
  assumes "\<bar>m\<bar> < 2 ^ 24" and "- 149 \<le> e" and "e \<le> 104"
  shows "float32 (of_int m * 2 powi e) = Fin (of_int m * 2 powi e)"
proof -
  define x :: real where "x = of_int m * 2 powi e"
  define u where "u = ulp_exp \<bar>x\<bar>"
  define k where "k = nat (e - u)"
  have abs: "\<bar>x\<bar> = of_int \<bar>m\<bar> * 2 powi e"
    by (simp add: x_def abs_mult)
  have "of_int \<bar>m\<bar> < (2::real) ^ 24"
    using assms(1) by (metis of_int_less_numeral_power_cancel_iff)
  then have "\<bar>x\<bar> < 2 ^ 24 * 2 powi e"
    unfolding abs by (simp add: mult_strict_right_mono)
  also have "\<dots> = 2 powi (e + 24)"
    by (simp add: power_int_add)
  finally have u_le: "u \<le> e"
    unfolding u_def using assms(2) by (rule ulp_exp_le)
  have "\<bar>m\<bar> \<le> 16777215"
    using assms(1) by simp
  then have m_le: "real_of_int \<bar>m\<bar> \<le> 16777215"
    by simp
  have e_le: "(2::real) powi e \<le> 2 powi 104"
    using assms(3) by (rule power_int_increasing) simp
  have "\<bar>x\<bar> \<le> 16777215 * 2 powi e"
    unfolding abs using m_le by (rule mult_right_mono) simp
  also have "\<dots> \<le> 16777215 * 2 powi 104"
    using e_le by simp
  also have "\<dots> < 2 ^ 128 - 2 ^ 103"
    by simp
  finally have small: "\<not> 2 ^ 128 - 2 ^ 103 \<le> \<bar>x\<bar>"
    by simp
  have "(2::real) powi e = 2 powi (e - u) * 2 powi u"
    by (simp flip: power_int_add)
  also have "(2::real) powi (e - u) = 2 ^ k"
    using u_le by (simp add: power_int_def k_def)
  finally have x_eq: "x = of_int (m * 2 ^ k) * 2 powi u"
    by (simp add: x_def)
  have "x / 2 powi u = of_int (m * 2 ^ k) * 2 powi u / 2 powi u"
    by (simp only: x_eq [symmetric])
  also have "\<dots> = of_int (m * 2 ^ k)"
    by (rule nonzero_mult_div_cancel_right) simp
  finally have quot: "x / 2 powi u = of_int (m * 2 ^ k)" .
  have "of_int (rne (x / 2 powi u)) * 2 powi u = x"
    by (simp only: quot rne_of_int x_eq [symmetric])
  then have "float32 x = Fin x"
    using small by (simp only: float32_def u_def [symmetric] if_False)
  then show ?thesis
    by (simp only: x_def)
qed

lemma float32_of_int:
  assumes "\<bar>m\<bar> < 2 ^ 24"
  shows "float32 (of_int m) = Fin (of_int m)"
  using float32_dyadic [OF assms, of 0] by simp

lemma float32_small:
  assumes "\<bar>x\<bar> < 2"
  shows "\<exists>v. float32 x = Fin v \<and> \<bar>v - x\<bar> \<le> 1 / 2 ^ 24"
proof -
  let ?u = "ulp_exp \<bar>x\<bar>"
  let ?v = "of_int (rne (x / 2 powi ?u)) * 2 powi ?u :: real"
  have "\<bar>x\<bar> < 2 powi (- 23 + 24)"
    using assms by simp
  then have u_le: "?u \<le> - 23"
    by (rule ulp_exp_le) simp
  have pos: "(0::real) < 2 powi ?u" by simp
  have "(2::real) powi ?u \<le> 2 powi (- 23)"
    using u_le by (rule power_int_increasing) simp
  then have u_bound: "(2::real) powi ?u \<le> 1 / 2 ^ 23"
    by (simp add: power_int_minus_divide)
  have "?v - x = (of_int (rne (x / 2 powi ?u)) - x / 2 powi ?u) * 2 powi ?u"
    by (simp add: algebra_simps)
  then have "\<bar>?v - x\<bar> = \<bar>of_int (rne (x / 2 powi ?u)) - x / 2 powi ?u\<bar> * 2 powi ?u"
    by (simp add: abs_mult)
  also have "\<dots> \<le> 1 / 2 * 2 powi ?u"
    by (rule mult_right_mono [OF rne_error]) simp
  also have "\<dots> \<le> 1 / 2 * (1 / 2 ^ 23)"
    using u_bound by simp
  finally have "\<bar>?v - x\<bar> \<le> 1 / 2 ^ 24" by simp
  moreover have "float32 x = Fin ?v"
    using assms by (simp add: float32_def)
  ultimately show ?thesis by blast
qed



subsection \<open>Runs and frames\<close>

lemma map2_fmul_exact:
  assumes "length lp = length G" and "exact_products rnd lp G"
  shows "map2 (fmul rnd) (map Fin lp) (map Fin G) = map Fin (map2 (*) lp G)"
  using assms by (induction lp G rule: list_induct2) simp_all

lemma foldl_fadd_exact:
  assumes "exact_sums rnd acc xs"
  shows "foldl (fadd rnd) (Fin acc) (map Fin xs) = Fin (acc + sum_list xs)"
  using assms by (induction xs arbitrary: acc) (simp_all add: add.assoc)

lemma exact_products_Fin: "exact_products Fin lp G"
  by (induction Fin lp G rule: exact_products.induct) simp_all

lemma exact_sums_Fin: "exact_sums Fin acc xs"
  by (induction xs arbitrary: acc) simp_all

lemma no_rounding_exact: "no_rounding torch_exact lp G"
  by (simp add: no_rounding_def torch_exact_def exact_products_Fin exact_sums_Fin)



text \<open>A run in which no collaborator raises and the product is defined.\<close>

lemma pg_torch_loss_run:
  assumes "from_batch model train_batch = Inr (dist_inputs, st)"
    and "dist_cls dist_inputs model = Inr action_dist"
    and "train_batch ACTIONS = Some actions"
    and "logp action_dist actions = Inr log_probs"
    and "train_batch ADVANTAGES = Some advantages"
    and "tensor_mul torch log_probs advantages = Inr weighted"
  shows "pg_torch_loss torch policy model dist_cls train_batch =
    (Inr (fneg (torch_mean torch weighted)),
     policy\<lparr>pi_err := Some (fneg (torch_mean torch weighted))\<rparr>, train_batch)"
  using assms by (simp add: pg_torch_loss_def getitem_def getattr_pi_err_def)

text \<open>The same run on numbers, when nothing is rounded: the loss is the exact one.\<close>

lemma mean_exact:
  assumes "length lp = length G" and "G \<noteq> []" and "no_rounding torch lp G"
  shows "tensor_mul torch (map Fin lp) (map Fin G) = Inr (map Fin (map2 (*) lp G))"
    and "fneg (torch_mean torch (map Fin (map2 (*) lp G))) =
      Fin (- (sum_list (map2 (*) lp G) / real (length G)))"
proof -
  show "tensor_mul torch (map Fin lp) (map Fin G) = Inr (map Fin (map2 (*) lp G))"
    using assms(1,3) by (simp add: tensor_mul_def no_rounding_def map2_fmul_exact)
  have "tensor_sum torch (map Fin (map2 (*) lp G)) = Fin (sum_list (map2 (*) lp G))"
    using assms(3) foldl_fadd_exact [of "dtype torch" 0 "map2 (*) lp G"]
    by (simp add: tensor_sum_def no_rounding_def)
  moreover have "length (map2 (*) lp G) = length G"
    using assms(1) by simp
  ultimately show "fneg (torch_mean torch (map Fin (map2 (*) lp G))) =
      Fin (- (sum_list (map2 (*) lp G) / real (length G)))"
    using assms(2,3) by (simp add: torch_mean_def no_rounding_def)
qed

lemma pg_torch_loss_exact_run:
  assumes "from_batch model train_batch = Inr (dist_inputs, st)"
    and "dist_cls dist_inputs model = Inr action_dist"
    and "train_batch ACTIONS = Some actions"
    and "logp action_dist actions = Inr (map Fin lp)"
    and "train_batch ADVANTAGES = Some (map Fin G)"
    and "length lp = length G" and "G \<noteq> []" and "no_rounding torch lp G"
  shows "returned (pg_torch_loss torch policy model dist_cls train_batch) =
    Inr (Fin (- (sum_list (map2 (*) lp G) / real (length G))))"
proof -
  have "pg_torch_loss torch policy model dist_cls train_batch =
      (Inr (fneg (torch_mean torch (map Fin (map2 (*) lp G)))),
       policy\<lparr>pi_err := Some (fneg (torch_mean torch (map Fin (map2 (*) lp G))))\<rparr>,
       train_batch)"
    by (rule pg_torch_loss_run [where dist_cls = dist_cls and train_batch = train_batch
          and policy = policy, OF assms(1-5) mean_exact(1) [OF assms(6-8)]])
  then show ?thesis
    by (simp only: returned_def fst_conv mean_exact(2) [OF assms(6-8)])
qed

text \<open>What any call, returning or raising, leaves behind.\<close>

lemma pg_torch_loss_frame:
  "policy_after (pg_torch_loss torch policy model dist_cls train_batch) =
     policy\<lparr>pi_err := pi_err (policy_after (pg_torch_loss torch policy model dist_cls train_batch))\<rparr>"
  by (simp add: pg_torch_loss_def policy_after_def Let_def split: sum.splits prod.splits)

lemma pg_torch_loss_batch:
  "batch_after (pg_torch_loss torch policy model dist_cls train_batch) = train_batch"
  by (simp add: pg_torch_loss_def batch_after_def Let_def split: sum.splits prod.splits)

lemma pg_loss_stats_frame:
  "policy_after (pg_loss_stats policy train_batch) = policy"
  "batch_after (pg_loss_stats policy train_batch) = train_batch"
  by (simp_all add: pg_loss_stats_def policy_after_def batch_after_def split: sum.splits)

text \<open>What a call that returns a value leaves in the policy.\<close>

lemma pg_torch_loss_Inr:
  assumes "returned (pg_torch_loss torch policy model dist_cls train_batch) = Inr loss"
  shows "policy_after (pg_torch_loss torch policy model dist_cls train_batch) =
    policy\<lparr>pi_err := Some loss\<rparr>"
  using assms
  by (auto simp: pg_torch_loss_def returned_def policy_after_def getattr_pi_err_def Let_def
      split: sum.splits prod.splits)

text \<open>The stats function, by the state of the attribute.\<close>

lemma pg_loss_stats_Some:
  "pi_err policy = Some t \<Longrightarrow>
     pg_loss_stats policy train_batch = (Inr [''policy_loss'' \<mapsto> t], policy, train_batch)"
  by (simp add: pg_loss_stats_def getattr_pi_err_def item_def)

lemma pg_loss_stats_None:
  "pi_err policy = None \<Longrightarrow>
     pg_loss_stats policy train_batch = (Inl AttributeError, policy, train_batch)"
  by (simp add: pg_loss_stats_def getattr_pi_err_def)

subsection \<open>Concrete runs in binary32\<close>

text \<open>The concrete collaborators, unfolded.\<close>

lemma ex_defs:
  "const_model = \<lparr>from_batch = (\<lambda>_. Inr ((), ()))\<rparr>"
  "table_dist f = (\<lambda>_ _. Inr \<lparr>logp = (\<lambda>actions. Inr (map f actions))\<rparr>)"
  "batch_of actions advantages = [ACTIONS \<mapsto> actions, ADVANTAGES \<mapsto> advantages]"
  "ACTIONS = ''actions''" "ADVANTAGES = ''advantages''"
  by (simp_all add: const_model_def table_dist_def batch_of_def ACTIONS_def ADVANTAGES_def)

lemmas eval_defs = pg_torch_loss_def ex_defs getitem_def tensor_mul_def torch_mean_def
  tensor_sum_def getattr_pi_err_def torch32_def

text \<open>Small integers and powers of two are floats.\<close>

lemma float32_values:
  "float32 (- 1) = Fin (- 1)" "float32 1 = Fin 1" "float32 2 = Fin 2" "float32 3 = Fin 3"
  "float32 (- 2) = Fin (- 2)" "float32 (- 3) = Fin (- 3)" "float32 (- 6) = Fin (- 6)"
  using float32_of_int [of "- 1"] float32_of_int [of 1] float32_of_int [of 2]
    float32_of_int [of 3] float32_of_int [of "- 2"] float32_of_int [of "- 3"]
    float32_of_int [of "- 6"]
  by simp_all


text \<open>The run on log-probabilities \<open>[-1, -3]\<close> and advantages \<open>[1, -1]\<close>.\<close>

lemma simple_run:
  "pg_torch_loss torch32 \<lparr>pi_err = None\<rparr> const_model (table_dist simple_logp)
      (batch_of [Fin 0, Fin 1] [Fin 1, Fin (- 1)]) =
    (Inr (Fin (- 1)), \<lparr>pi_err = Some (Fin (- 1))\<rparr>,
     batch_of [Fin 0, Fin 1] [Fin 1, Fin (- 1)])"
  by (simp add: eval_defs simple_logp_def float32_values)







subsection \<open>The scenario's numbers\<close>

text \<open>
  Bounds on \<open>ln 2\<close> from the Maclaurin series of \<open>exp\<close>: a partial sum is a lower
  bound of \<open>exp x\<close> when the remainder term is not negative.
\<close>

lemma exp_lower_Taylor:
  fixes x :: real
  assumes "0 \<le> x \<or> even n"
  shows "(\<Sum>m<n. x ^ m / fact m) \<le> exp x"
proof -
  obtain t where "exp x = (\<Sum>m<n. x ^ m / fact m) + (exp t / fact n) * x ^ n"
    using Maclaurin_exp_le [of x n] by blast
  moreover have "0 \<le> (exp t / fact n) * x ^ n"
    using assms by (auto simp: zero_le_even_power)
  ultimately show ?thesis by linarith
qed

lemma ln2_upper: "ln (2::real) < 6949 / 10000"
proof -
  have "(2::real) < (\<Sum>m<6. (6949 / 10000) ^ m / fact m)"
    by (simp add: lessThan_nat_numeral lessThan_Suc fact_numeral power_divide eval_nat_numeral)
  also have "\<dots> \<le> exp (6949 / 10000)"
    by (rule exp_lower_Taylor) simp
  finally have "exp (ln 2) < exp (6949 / 10000 :: real)" by simp
  then show ?thesis by (simp only: exp_less_cancel_iff)
qed

lemma ln2_lower: "6931 / 10000 < ln (2::real)"
proof -
  have "(1 / 2 ::real) < (\<Sum>m<8. (- (6931 / 10000)) ^ m / fact m)"
    by (simp add: lessThan_nat_numeral lessThan_Suc fact_numeral power_divide eval_nat_numeral)
  also have "\<dots> \<le> exp (- (6931 / 10000))"
    by (rule exp_lower_Taylor) simp
  finally have "exp (- ln 2) < exp (- (6931 / 10000) :: real)" by (simp add: exp_minus)
  then show ?thesis by simp
qed

lemma ln_half: "ln (1 / 2 :: real) = - ln 2"
  by (simp add: ln_div)

lemma ln_quarter: "ln (1 / 4 :: real) = - 2 * ln 2"
proof -
  have "ln (4::real) = ln (2 * 2)" by simp
  also have "\<dots> = 2 * ln 2" by (simp only: ln_mult) simp
  finally show ?thesis by (simp add: ln_div)
qed

lemma scenario_value:
  "- (1 * ln (1 / 2) + (- 1) * ln (1 / 4)) / 2 = - (ln (2::real) / 2)"
  unfolding ln_half ln_quarter by simp

text \<open>The scenario in binary32: five roundings, each of at most \<open>1 / 2 ^ 24\<close>.\<close>

lemma scenario_float32:
  "\<exists>v. fneg (torch_mean torch32 (map2 (fmul float32) [Fin (ln (1 / 2)), Fin (ln (1 / 4))]
          [Fin 1, Fin (- 1)])) = Fin v
      \<and> \<bar>v - (- (ln 2 / 2))\<bar> \<le> 3 / 2 ^ 24"
proof -
  note lo = ln2_lower and up = ln2_upper
  obtain a where a: "float32 (- ln 2) = Fin a" and ea: "\<bar>a - (- ln 2)\<bar> \<le> 1 / 2 ^ 24"
    using float32_small [of "- ln 2"] lo up by auto
  obtain b where b: "float32 (2 * ln 2) = Fin b" and eb: "\<bar>b - 2 * ln 2\<bar> \<le> 1 / 2 ^ 24"
    using float32_small [of "2 * ln 2"] lo up by auto
  have "\<bar>a\<bar> < 2" using ea lo up by (simp add: abs_if split: if_splits)
  then obtain a' where a': "float32 a = Fin a'" and ea': "\<bar>a' - a\<bar> \<le> 1 / 2 ^ 24"
    using float32_small [of a] by auto
  have "\<bar>a' + b\<bar> < 2" using ea ea' eb lo up by (simp add: abs_if split: if_splits)
  then obtain s where s: "float32 (a' + b) = Fin s" and es: "\<bar>s - (a' + b)\<bar> \<le> 1 / 2 ^ 24"
    using float32_small [of "a' + b"] by auto
  have "\<bar>s / 2\<bar> < 2" using ea ea' eb es lo up by (simp add: abs_if split: if_splits)
  then obtain q where q: "float32 (s / 2) = Fin q" and eq: "\<bar>q - s / 2\<bar> \<le> 1 / 2 ^ 24"
    using float32_small [of "s / 2"] by auto
  have "fneg (torch_mean torch32 (map2 (fmul float32) [Fin (ln (1 / 2)), Fin (ln (1 / 4))]
          [Fin 1, Fin (- 1)])) = Fin (- q)"
    by (simp add: torch_mean_def tensor_sum_def torch32_def ln_half ln_quarter a b a' s q)
  moreover have "\<bar>- q - (- (ln 2 / 2))\<bar> \<le> 3 / 2 ^ 24"
    using ea ea' eb es eq by (simp add: abs_if split: if_splits)
  ultimately show ?thesis by blast
qed

text \<open>Zero advantages: every product, every partial sum and the mean are 0.\<close>

lemma zero_products:
  assumes "rnd 0 = Fin 0"
  shows "map2 (fmul rnd) (map Fin lp) (replicate (length lp) (Fin 0)) =
    replicate (length lp) (Fin 0)"
  using assms by (induction lp) simp_all

lemma zero_sum:
  assumes "rnd 0 = Fin 0"
  shows "foldl (fadd rnd) (Fin 0) (replicate k (Fin 0)) = Fin 0"
  using assms by (induction k) simp_all

subsection \<open>The value of the loss\<close>




subsection \<open>The cached loss and the stats\<close>

text \<open>
  Claim C2. After \<^verbatim>\<open>pg_torch_loss\<close> has returned a loss on a policy,
  \<^verbatim>\<open>pg_loss_stats\<close> on that policy (with any batch) returns a mapping with exactly
  one entry, \<open>policy_loss\<close>, whose value is the loss just computed:
  \<^verbatim>\<open>.item()\<close> keeps the value, so the two are equal and not only close.
\<close>

theorem pg_loss_stats_after_loss:
  assumes "returned (pg_torch_loss torch policy model dist_cls train_batch) = Inr loss"
  shows "\<exists>stats.
      returned (pg_loss_stats (policy_after (pg_torch_loss torch policy model dist_cls train_batch)) b)
        = Inr stats
      \<and> dom stats = {''policy_loss''} \<and> stats ''policy_loss'' = Some loss"
proof -
  have "pi_err (policy_after (pg_torch_loss torch policy model dist_cls train_batch)) = Some loss"
    using pg_torch_loss_Inr [OF assms] by simp
  then show ?thesis
    by (simp add: pg_loss_stats_Some returned_def)
qed

theorem pg_loss_stats_after_loss_witness:
  "returned (pg_torch_loss torch32 \<lparr>pi_err = None\<rparr> const_model (table_dist simple_logp)
      (batch_of [Fin 0, Fin 1] [Fin 1, Fin (- 1)])) = Inr (Fin (- 1))
   \<and> (\<exists>stats.
      returned (pg_loss_stats (policy_after (pg_torch_loss torch32 \<lparr>pi_err = None\<rparr> const_model
        (table_dist simple_logp) (batch_of [Fin 0, Fin 1] [Fin 1, Fin (- 1)]))) Map.empty)
        = Inr stats
      \<and> dom stats = {''policy_loss''} \<and> stats ''policy_loss'' = Some (Fin (- 1)))"
proof -
  have run: "returned (pg_torch_loss torch32 \<lparr>pi_err = None\<rparr> const_model
      (table_dist simple_logp) (batch_of [Fin 0, Fin 1] [Fin 1, Fin (- 1)])) = Inr (Fin (- 1))"
    by (simp add: simple_run returned_def)
  show ?thesis
    using run pg_loss_stats_after_loss [OF run, of Map.empty] by blast
qed

text \<open>
  Claim C3. On a policy whose \<^verbatim>\<open>pi_err\<close> was never assigned (a fresh policy, on
  which \<^verbatim>\<open>pg_torch_loss\<close> has not run), \<^verbatim>\<open>pg_loss_stats\<close> raises the
  missing-attribute error: it returns no mapping, so no stale value and no zero.
\<close>

theorem pg_loss_stats_fresh_policy:
  assumes "pi_err policy = None"
  shows "returned (pg_loss_stats policy train_batch) = Inl AttributeError"
  using assms by (simp add: pg_loss_stats_None returned_def)

theorem pg_loss_stats_fresh_policy_witness:
  "pi_err \<lparr>pi_err = None\<rparr> = None
   \<and> returned (pg_loss_stats \<lparr>pi_err = None\<rparr> (batch_of [Fin 0, Fin 1] [Fin 1, Fin (- 1)]))
       = Inl AttributeError"
  using pg_loss_stats_fresh_policy [of "\<lparr>pi_err = None\<rparr>" "batch_of [Fin 0, Fin 1] [Fin 1, Fin (- 1)]"]
  by simp

subsection \<open>The scenario of the spec\<close>

text \<open>
  Claim C4. On the batch with actions \<open>[0, 1]\<close> and advantages \<open>[1, -1]\<close>, with a
  distribution that gives these actions the log-probabilities \<open>[ln 0.5, ln 0.25]\<close>,
  \<^verbatim>\<open>pg_torch_loss\<close> returns \<open>-(1 * ln 0.5 + (-1) * ln 0.25) / 2\<close>, which is
  \<open>-0.347\<close> to three decimals (it is \<open>-(ln 2) / 2\<close>): exactly so in arithmetic
  without rounding, and in binary32 a float within \<open>3 / 2 ^ 24\<close> of that value, itself
  \<open>-0.347\<close> to three decimals.
\<close>

theorem pg_torch_loss_scenario:
  assumes "from_batch model train_batch = Inr (dist_inputs, st)"
    and "dist_cls dist_inputs model = Inr action_dist"
    and "train_batch ACTIONS = Some [Fin 0, Fin 1]"
    and "logp action_dist [Fin 0, Fin 1] = Inr [Fin (ln (1 / 2)), Fin (ln (1 / 4))]"
    and "train_batch ADVANTAGES = Some [Fin 1, Fin (- 1)]"
  shows "returned (pg_torch_loss torch_exact policy model dist_cls train_batch) =
      Inr (Fin (- (1 * ln (1 / 2) + (- 1) * ln (1 / 4)) / 2))
    \<and> \<bar>- (1 * ln (1 / 2) + (- 1) * ln (1 / 4)) / 2 - (- (347 / 1000))\<bar> < (1 / 2000 :: real)
    \<and> (\<exists>v. returned (pg_torch_loss torch32 policy model dist_cls train_batch) = Inr (Fin v)
          \<and> \<bar>v - (- (1 * ln (1 / 2) + (- 1) * ln (1 / 4)) / 2)\<bar> \<le> 3 / 2 ^ 24
          \<and> \<bar>v - (- (347 / 1000))\<bar> < 1 / 2000)"
proof -
  have lp: "logp action_dist [Fin 0, Fin 1] = Inr (map Fin [ln (1 / 2), ln (1 / 4)])"
    using assms(4) by simp
  have G: "train_batch ADVANTAGES = Some (map Fin [1, - 1])"
    using assms(5) by simp
  have "returned (pg_torch_loss torch_exact policy model dist_cls train_batch) =
      Inr (Fin (- (sum_list (map2 (*) [ln (1 / 2), ln (1 / 4)] [1, - 1])
        / real (length [1, - 1 :: real]))))"
    by (rule pg_torch_loss_exact_run [where dist_cls = dist_cls and train_batch = train_batch,
          OF assms(1-3) lp G _ _ no_rounding_exact]) simp_all
  then have exact: "returned (pg_torch_loss torch_exact policy model dist_cls train_batch) =
      Inr (Fin (- (1 * ln (1 / 2) + (- 1) * ln (1 / 4)) / 2))"
    by (simp add: field_simps)
  have near: "\<bar>- (ln 2 / 2) - (- (347 / 1000))\<bar> < (9 / 20000 :: real)"
    using ln2_lower ln2_upper by linarith
  have w: "tensor_mul torch32 [Fin (ln (1 / 2)), Fin (ln (1 / 4))] [Fin 1, Fin (- 1)] =
      Inr (map2 (fmul float32) [Fin (ln (1 / 2)), Fin (ln (1 / 4))] [Fin 1, Fin (- 1)])"
    by (simp add: tensor_mul_def torch32_def)
  obtain v where v: "fneg (torch_mean torch32 (map2 (fmul float32)
        [Fin (ln (1 / 2)), Fin (ln (1 / 4))] [Fin 1, Fin (- 1)])) = Fin v"
    and ev: "\<bar>v - (- (ln 2 / 2))\<bar> \<le> 3 / 2 ^ 24"
    using scenario_float32 by blast
  have "pg_torch_loss torch32 policy model dist_cls train_batch =
      (Inr (fneg (torch_mean torch32 (map2 (fmul float32)
          [Fin (ln (1 / 2)), Fin (ln (1 / 4))] [Fin 1, Fin (- 1)]))),
       policy\<lparr>pi_err := Some (fneg (torch_mean torch32 (map2 (fmul float32)
          [Fin (ln (1 / 2)), Fin (ln (1 / 4))] [Fin 1, Fin (- 1)])))\<rparr>,
       train_batch)"
    by (rule pg_torch_loss_run [where dist_cls = dist_cls and train_batch = train_batch
          and policy = policy, OF assms(1-5) w])
  then have f32: "returned (pg_torch_loss torch32 policy model dist_cls train_batch) = Inr (Fin v)"
    by (simp only: returned_def fst_conv v)
  have "\<bar>v - (- (347 / 1000))\<bar> < 1 / 2000"
    using ev near by (simp add: abs_if split: if_splits)
  with exact f32 ev near show ?thesis
    unfolding scenario_value by (simp add: abs_if split: if_splits) 
qed

theorem pg_torch_loss_scenario_witness:
  "returned (pg_torch_loss torch_exact \<lparr>pi_err = None\<rparr> const_model (table_dist scenario_logp)
      (batch_of [Fin 0, Fin 1] [Fin 1, Fin (- 1)])) =
      Inr (Fin (- (1 * ln (1 / 2) + (- 1) * ln (1 / 4)) / 2))
    \<and> \<bar>- (1 * ln (1 / 2) + (- 1) * ln (1 / 4)) / 2 - (- (347 / 1000))\<bar> < (1 / 2000 :: real)
    \<and> (\<exists>v. returned (pg_torch_loss torch32 \<lparr>pi_err = None\<rparr> const_model
            (table_dist scenario_logp) (batch_of [Fin 0, Fin 1] [Fin 1, Fin (- 1)])) = Inr (Fin v)
          \<and> \<bar>v - (- (1 * ln (1 / 2) + (- 1) * ln (1 / 4)) / 2)\<bar> \<le> 3 / 2 ^ 24
          \<and> \<bar>v - (- (347 / 1000))\<bar> < 1 / 2000)"
proof -
  have h1: "from_batch const_model (batch_of [Fin 0, Fin 1] [Fin 1, Fin (- 1)]) = Inr ((), ())"
    by (simp add: const_model_def)
  have h2: "table_dist scenario_logp () const_model =
      Inr \<lparr>logp = (\<lambda>actions. Inr (map scenario_logp actions))\<rparr>"
    by (simp add: table_dist_def)
  have h3: "batch_of [Fin 0, Fin 1] [Fin 1, Fin (- 1)] ACTIONS = Some [Fin 0, Fin 1]"
    by (simp add: ex_defs)
  have h4: "logp \<lparr>logp = (\<lambda>actions. Inr (map scenario_logp actions))\<rparr> [Fin 0, Fin 1] =
      Inr [Fin (ln (1 / 2)), Fin (ln (1 / 4))]"
    by (simp add: scenario_logp_def)
  have h5: "batch_of [Fin 0, Fin 1] [Fin 1, Fin (- 1)] ADVANTAGES = Some [Fin 1, Fin (- 1)]"
    by (simp add: ex_defs)
  show ?thesis
    by (rule pg_torch_loss_scenario [where dist_cls = "table_dist scenario_logp"
          and train_batch = "batch_of [Fin 0, Fin 1] [Fin 1, Fin (- 1)]", OF h1 h2 h3 h4 h5])
qed

subsection \<open>The side effect\<close>



subsection \<open>Algebraic properties\<close>

text \<open>
  Claim C6, amended. For a batch of at least one sample in which every advantage is 0
  and every log-probability of a recorded action is a number (neither infinite nor
  NaN), \<^verbatim>\<open>pg_torch_loss\<close> returns 0. Rounding does not matter here: a float format
  holds 0 as it is, binary32 among them.
\<close>

theorem pg_torch_loss_zero_advantages:
  assumes "from_batch model train_batch = Inr (dist_inputs, st)"
    and "dist_cls dist_inputs model = Inr action_dist"
    and "train_batch ACTIONS = Some actions"
    and "logp action_dist actions = Inr (map Fin lp)"
    and "train_batch ADVANTAGES = Some (replicate n (Fin 0))"
    and "length lp = n" and "0 < n"
    and "dtype torch 0 = Fin 0"
  shows "returned (pg_torch_loss torch policy model dist_cls train_batch) = Inr (Fin 0)"
proof -
  have w: "tensor_mul torch (map Fin lp) (replicate n (Fin 0)) = Inr (replicate n (Fin 0))"
    using assms(6,8) zero_products [of "dtype torch" lp] by (simp add: tensor_mul_def)
  have "torch_mean torch (replicate n (Fin 0)) = Fin 0"
    using assms(7,8) by (simp add: torch_mean_def tensor_sum_def zero_sum)
  then have loss: "fneg (torch_mean torch (replicate n (Fin 0))) = Fin 0"
    by simp
  have "pg_torch_loss torch policy model dist_cls train_batch =
      (Inr (fneg (torch_mean torch (replicate n (Fin 0)))),
       policy\<lparr>pi_err := Some (fneg (torch_mean torch (replicate n (Fin 0))))\<rparr>,
       train_batch)"
    by (rule pg_torch_loss_run [where dist_cls = dist_cls and train_batch = train_batch
          and policy = policy, OF assms(1-5) w])
  then show ?thesis
    by (simp only: returned_def fst_conv loss)
qed

theorem pg_torch_loss_zero_advantages_witness:
  "dtype torch32 0 = Fin 0
   \<and> returned (pg_torch_loss torch32 \<lparr>pi_err = None\<rparr> const_model (table_dist simple_logp)
      (batch_of [Fin 0, Fin 1] [Fin 0, Fin 0])) = Inr (Fin 0)"
proof -
  have h1: "from_batch const_model (batch_of [Fin 0, Fin 1] [Fin 0, Fin 0]) = Inr ((), ())"
    by (simp add: const_model_def)
  have h2: "table_dist simple_logp () const_model =
      Inr \<lparr>logp = (\<lambda>actions. Inr (map simple_logp actions))\<rparr>"
    by (simp add: table_dist_def)
  have h3: "batch_of [Fin 0, Fin 1] [Fin 0, Fin 0] ACTIONS = Some [Fin 0, Fin 1]"
    by (simp add: ex_defs)
  have h4: "logp \<lparr>logp = (\<lambda>actions. Inr (map simple_logp actions))\<rparr> [Fin 0, Fin 1] =
      Inr (map Fin [- 1, - 3])"
    by (simp add: simple_logp_def)
  have h5: "batch_of [Fin 0, Fin 1] [Fin 0, Fin 0] ADVANTAGES = Some (replicate 2 (Fin 0))"
    by (simp add: ex_defs numeral_2_eq_2)
  have h6: "length [- 1, - 3 :: real] = 2" and h7: "0 < (2::nat)"
    by simp_all
  have h8: "dtype torch32 0 = Fin 0"
    by (simp add: torch32_def)
  show ?thesis
    using h8 pg_torch_loss_zero_advantages [where dist_cls = "table_dist simple_logp"
        and train_batch = "batch_of [Fin 0, Fin 1] [Fin 0, Fin 0]"
        and policy = "\<lparr>pi_err = None\<rparr>", OF h1 h2 h3 h4 h5 h6 h7 h8]
    by (rule conjI)
qed

text \<open>
  Without the two conditions the loss is NaN, not 0. A recorded action of probability 0
  has the log-probability \<open>-inf\<close>, and \<open>-inf * 0\<close> is NaN; on the empty batch every
  advantage is 0 and the mean is \<open>0 / 0\<close>. A NaN log-probability gives NaN in the
  same way. The file checks none of this: it passes on what the numerical backend
  computes.
\<close>

theorem pg_torch_loss_zero_advantages_counterexample:
  "returned (pg_torch_loss torch32 \<lparr>pi_err = None\<rparr> const_model (table_dist masked_logp)
      (batch_of [Fin 1] [Fin 0])) = Inr NaN
   \<and> returned (pg_torch_loss torch32 \<lparr>pi_err = None\<rparr> const_model (table_dist simple_logp)
      (batch_of [] [])) = Inr NaN
   \<and> Inr NaN \<noteq> (Inr (Fin 0) :: error + tfloat)"
  by (simp add: eval_defs returned_def masked_logp_def signed_inf_def)




subsection \<open>Frames\<close>

text \<open>
  Claim C8. Of the policy, the two functions write \<^verbatim>\<open>pi_err\<close> only: the policy
  after \<^verbatim>\<open>pg_torch_loss\<close> is the policy before with \<^verbatim>\<open>pi_err\<close> updated, so
  every other attribute is as it was, whether the call returned or raised; the policy
  after \<^verbatim>\<open>pg_loss_stats\<close> is the policy before.
\<close>

theorem policy_written_only_at_pi_err:
  "policy_after (pg_torch_loss torch policy model dist_cls train_batch) =
     policy\<lparr>pi_err := pi_err (policy_after (pg_torch_loss torch policy model dist_cls train_batch))\<rparr>
   \<and> Policy.more (policy_after (pg_torch_loss torch policy model dist_cls train_batch)) =
     Policy.more policy
   \<and> policy_after (pg_loss_stats policy train_batch) = policy"
proof -
  have "Policy.more (policy_after (pg_torch_loss torch policy model dist_cls train_batch)) =
      Policy.more policy"
    by (subst pg_torch_loss_frame) simp
  then show ?thesis
    using pg_torch_loss_frame [of torch policy model dist_cls train_batch]
    by (simp add: pg_loss_stats_frame)
qed

text \<open>
  Claim C9. Neither function writes the training batch: after either call, returned or
  raised, the batch is the batch the call was given.
\<close>

theorem train_batch_never_written:
  "batch_after (pg_torch_loss torch policy model dist_cls train_batch) = train_batch
   \<and> batch_after (pg_loss_stats policy train_batch) = train_batch"
  by (simp add: pg_torch_loss_batch pg_loss_stats_frame)

text \<open>
  Claim C10. \<^verbatim>\<open>pg_loss_stats\<close> does not depend on its batch: on one policy, the
  calls with any two batches return the same result (the same mapping when
  \<^verbatim>\<open>pi_err\<close> is set, the same error when it is not) and leave the same policy.
\<close>

theorem pg_loss_stats_ignores_batch:
  "returned (pg_loss_stats policy train_batch1) = returned (pg_loss_stats policy train_batch2)
   \<and> policy_after (pg_loss_stats policy train_batch1) =
     policy_after (pg_loss_stats policy train_batch2)"
  by (simp add: pg_loss_stats_def returned_def policy_after_def split: sum.splits)

end
